theory Spec2Isabelle
  imports Main "HOL-Library.Word" "HOL-Library.Sublist"
begin

section \<open>Data model of the DICOMweb gateway (src/app.js)\<close>

type_synonym byte = "8 word"

text \<open>The archive level handed to \<^verbatim>\<open>utils.doFind\<close>: the string literals
  \<^verbatim>\<open>'STUDY'\<close>, \<^verbatim>\<open>'SERIES'\<close>, \<^verbatim>\<open>'IMAGE'\<close>.\<close>

datatype level = STUDY | SERIES | IMAGE

text \<open>A value of \<^verbatim>\<open>req.query\<close>: the query-string parser yields a string, or an array of
  strings for a repeated key; an absent key is \<open>None\<close> in the map.\<close>

datatype qvalue = QString string | QArray "string list"

type_synonym query = "string \<rightharpoonup> qvalue"

text \<open>A \<^verbatim>\<open>Uint8Array\<close>/\<^verbatim>\<open>Buffer\<close>: a window of \<open>byteLength\<close> bytes starting at
  \<open>byteOffset\<close> of the underlying \<^verbatim>\<open>ArrayBuffer\<close> \<open>buffer\<close>.\<close>

record byteArray =
  buffer :: "byte list"
  byteOffset :: nat
  byteLength :: nat

text \<open>An element of a parsed data set; \<open>dataOffset\<close> counts from the start of the data set's
  byte array. The source's field \<^verbatim>\<open>length\<close> is \<open>length_el\<close> here.\<close>

record element =
  dataOffset :: nat
  length_el :: nat

record dataSet =
  byteArray :: byteArray
  elements :: "string \<rightharpoonup> element"

text \<open>Values thrown inside the handlers: a rejection of a collaborator (carried as an opaque
  description), the \<^verbatim>\<open>TypeError\<close> of reading a property of \<^verbatim>\<open>undefined\<close>, the
  \<^verbatim>\<open>RangeError\<close> of \<^verbatim>\<open>Buffer.from\<close>, the \<^verbatim>\<open>TypeError\<close> of \<^verbatim>\<open>path.join\<close> on a
  non-string, and the \<^verbatim>\<open>TypeError\<close> of calling a method the reply object does not have.\<close>

datatype thrown =
    Collaborator string
  | UndefinedProperty string
  | BufferOutOfBounds
  | InvalidArgType
  | NotAFunction string

type_synonym json = "(string \<times> string) list list"

datatype payload = Text string | Stream "byte list" | Bytes "byte list" | Json json

record response =
  status :: nat
  headers :: "(string \<times> string) list"
  body :: payload

text \<open>How a handler ends: it sends a reply; or its promise rejects (the framework's default
  error handler answers); or an exception escapes a callback, is logged by the
  \<^verbatim>\<open>uncaughtException\<close> hook, and no reply is sent.\<close>

datatype outcome = Replied response | Rejected thrown | Uncaught thrown

text \<open>Calls that reach the file store, the query executor or the log, in the order the
  handler makes them.\<close>

datatype event =
    EvFileExists string
  | EvCompressFile string string "string option"
  | EvReadFile string
  | EvDoFind level query "string list"
  | EvLogError

text \<open>The collaborators the handlers call and that are not part of \<^verbatim>\<open>app.js\<close>:
  \<^verbatim>\<open>config.get('storagePath')\<close>, \<^verbatim>\<open>path.join\<close>, \<^verbatim>\<open>utils.fileExists\<close> (\<open>True\<close> when
  the promise resolves), \<^verbatim>\<open>utils.compressFile\<close> (the flag says whether it resolved; it may
  rewrite stored files), \<^verbatim>\<open>fs.readFile\<close>, \<^verbatim>\<open>dicomParser.parseDicom\<close>, the engine's
  string conversion of a thrown value, the four tag projections of \<^verbatim>\<open>utils\<close> and
  \<^verbatim>\<open>utils.doFind\<close>. \<open>'fs\<close> is the state of the file store.\<close>

record 'fs env =
  storagePath :: string
  pathJoin :: "string \<Rightarrow> string \<Rightarrow> string"
  fileExists :: "'fs \<Rightarrow> string \<Rightarrow> bool"
  compressFile :: "'fs \<Rightarrow> string \<Rightarrow> string \<Rightarrow> string option \<Rightarrow> bool \<times> 'fs"
  readFile :: "'fs \<Rightarrow> string \<Rightarrow> thrown + byteArray"
  parseDicom :: "byteArray \<Rightarrow> thrown + dataSet"
  errorString :: "thrown \<Rightarrow> string"
  studyLevelTags :: "string list"
  seriesLevelTags :: "string list"
  imageLevelTags :: "string list"
  imageMetadataTags :: "string list"
  doFind :: "'fs \<Rightarrow> level \<Rightarrow> query \<Rightarrow> string list \<Rightarrow> thrown + json"

section \<open>Frame retrieval\<close>

text \<open>The route parameters of
  \<^verbatim>\<open>/viewer/rs/studies/:studyInstanceUid/series/:seriesInstanceUid/instances/:sopInstanceUid/frames/:frame\<close>.\<close>

record frameParams =
  studyInstanceUid :: string
  seriesInstanceUid :: string
  sopInstanceUid :: string
  frame :: string

text \<open>\<^verbatim>\<open>buf.toString('hex')\<close>: two lower-case hexadecimal digits per byte.\<close>

definition hexDigit :: "nat \<Rightarrow> char" where
  "hexDigit n = ''0123456789abcdef'' ! (n mod 16)"

definition toHex :: "byte list \<Rightarrow> string" where
  "toHex bs = concat (map (\<lambda>b. [hexDigit (unat b div 16), hexDigit (unat b mod 16)]) bs)"

text \<open>The bytes a stream writes for a pushed string. Every string pushed by the handler is
  ASCII (literals and hexadecimal tokens), where UTF-8 is one byte per character.\<close>

definition bytesOf :: "string \<Rightarrow> byte list" where
  "bytesOf s = map (\<lambda>c. of_nat (of_char c)) s"

text \<open>\<^verbatim>\<open>Buffer.from(arrayBuffer, byteOffset, length)\<close>: a window on the array buffer, or a
  \<^verbatim>\<open>RangeError\<close> when the offset or the length leaves it.\<close>

definition fromArrayBuffer :: "byte list \<Rightarrow> nat \<Rightarrow> nat \<Rightarrow> thrown + byte list" where
  "fromArrayBuffer ab off len =
     (if length ab < off then Inl BufferOutOfBounds
      else if length ab - off < len then Inl BufferOutOfBounds
      else Inr (take len (drop off ab)))"

text \<open>Lines 154--157: read the file, parse it, take the element \<^verbatim>\<open>x7fe00010\<close> and window
  \<^verbatim>\<open>dataset.byteArray.buffer\<close> at the element's offset and length.\<close>

definition readPixelData :: "'fs env \<Rightarrow> 'fs \<Rightarrow> string \<Rightarrow> thrown + byte list" where
  "readPixelData env fs pathname =
     (case readFile env fs pathname of
        Inl e \<Rightarrow> Inl e
      | Inr data \<Rightarrow>
          (case parseDicom env data of
             Inl e \<Rightarrow> Inl e
           | Inr dataset \<Rightarrow>
               (case elements dataset ''x7fe00010'' of
                  None \<Rightarrow> Inl (UndefinedProperty ''dataOffset'')
                | Some pixelDataElement \<Rightarrow>
                    fromArrayBuffer (buffer (byteArray dataset))
                      (dataOffset pixelDataElement) (length_el pixelDataElement))))"

definition term_crlf :: string where
  "term_crlf = [CHR 0x0D, CHR 0x0A]"

text \<open>Line 164: the value of the reply's \<^verbatim>\<open>Content-Type\<close> header.\<close>

definition contentTypeHeader :: "string \<Rightarrow> string \<Rightarrow> string" where
  "contentTypeHeader contentId boundary =
     ''multipart/related;start='' @ contentId @ '';type='' @ [CHR 0x27] @
     ''application/octed-stream'' @ [CHR 0x27] @ '';boundary='' @ [CHR 0x27] @ boundary @ [CHR 0x27]"

text \<open>Lines 166--177: the chunks the readable stream pushes, in order.\<close>

definition streamChunks :: "string \<Rightarrow> string \<Rightarrow> byte list \<Rightarrow> byte list list" where
  "streamChunks boundary contentId buf =
     (let endline = term_crlf @ ''--'' @ boundary @ ''--'' @ term_crlf in
      [ bytesOf (term_crlf @ ''--'' @ boundary @ term_crlf),
        bytesOf (''Content-Location:localhost'' @ term_crlf),
        bytesOf (''Content-ID:'' @ contentId @ term_crlf),
        bytesOf (''Content-Type:application/octet-stream'' @ term_crlf),
        bytesOf term_crlf,
        buf,
        bytesOf endline ])"

text \<open>The frame handler (lines 125--184). \<open>rb1\<close> and \<open>rb2\<close> are the results of the two calls
  of \<^verbatim>\<open>crypto.randomBytes(16)\<close>. The result is the reply, the collaborator calls made, and the
  file store afterwards. The route parameter \<^verbatim>\<open>frame\<close> is not destructured by the source.\<close>

definition frames_handler ::
  "'fs env \<Rightarrow> byte list \<Rightarrow> byte list \<Rightarrow> 'fs \<Rightarrow> frameParams \<Rightarrow> response \<times> event list \<times> 'fs" where
  "frames_handler env rb1 rb2 fs params =
     (let studyPath = pathJoin env (storagePath env) (studyInstanceUid params);
          pathname = pathJoin env studyPath (sopInstanceUid params)
      in if \<not> fileExists env fs pathname then
           (\<lparr>status = 404, headers = [], body = Text (''File '' @ pathname @ '' not found!'')\<rparr>,
            [EvFileExists pathname, EvLogError], fs)
         else
           (case compressFile env fs pathname studyPath (Some ''1.2.840.10008.1.2'') of
              (ok, fs') \<Rightarrow>
                if \<not> ok then
                  (\<lparr>status = 500, headers = [], body = Text (''failed to compress '' @ pathname)\<rparr>,
                   [EvFileExists pathname,
                    EvCompressFile pathname studyPath (Some ''1.2.840.10008.1.2''), EvLogError], fs')
                else
                  (case readPixelData env fs' pathname of
                     Inl error \<Rightarrow>
                       (\<lparr>status = 500, headers = [],
                         body = Text (''Error getting the file: '' @ errorString env error @ ''.'')\<rparr>,
                        [EvFileExists pathname,
                         EvCompressFile pathname studyPath (Some ''1.2.840.10008.1.2''),
                         EvReadFile pathname, EvLogError], fs')
                   | Inr buf \<Rightarrow>
                       (let boundary = toHex rb1;
                            contentId = toHex rb2
                        in (\<lparr>status = 200,
                             headers = [(''Content-Type'', contentTypeHeader contentId boundary)],
                             body = Stream (concat (streamChunks boundary contentId buf))\<rparr>,
                            [EvFileExists pathname,
                             EvCompressFile pathname studyPath (Some ''1.2.840.10008.1.2''),
                             EvReadFile pathname], fs')))))"

section \<open>Legacy whole-object retrieval\<close>

text \<open>JavaScript truthiness of a query value: \<^verbatim>\<open>undefined\<close> and the empty string are falsy,
  an array is truthy.\<close>

fun truthy :: "qvalue option \<Rightarrow> bool" where
  "truthy None = False"
| "truthy (Some (QString s)) = (s \<noteq> [])"
| "truthy (Some (QArray xs)) = True"

text \<open>\<^verbatim>\<open>path.join(a, v)\<close> for a query value \<open>v\<close>: a \<^verbatim>\<open>TypeError\<close> unless \<open>v\<close> is a string.\<close>

fun joinArg :: "'fs env \<Rightarrow> string \<Rightarrow> qvalue option \<Rightarrow> thrown + string" where
  "joinArg env a (Some (QString s)) = Inr (pathJoin env a s)"
| "joinArg env a _ = Inl InvalidArgType"

text \<open>The bytes of a \<^verbatim>\<open>Buffer\<close> sent as a reply body.\<close>

definition viewBytes :: "byteArray \<Rightarrow> byte list" where
  "viewBytes v = take (byteLength v) (drop (byteOffset v) (buffer v))"

text \<open>The handler of \<^verbatim>\<open>/viewer/wadouri\<close> (lines 188--236). In the read callback the error
  branch logs, then calls \<^verbatim>\<open>reply.setCode\<close>, which the reply object does not have; the
  \<^verbatim>\<open>uncaughtException\<close> hook logs twice.\<close>

definition wadouri_handler :: "'fs env \<Rightarrow> 'fs \<Rightarrow> query \<Rightarrow> outcome \<times> event list \<times> 'fs" where
  "wadouri_handler env fs q =
     (let studyUid = q ''studyUID'';
          seriesUid = q ''seriesUID'';
          imageUid = q ''objectUID''
      in if \<not> truthy studyUid \<or> \<not> truthy seriesUid \<or> \<not> truthy imageUid then
           (Replied \<lparr>status = 500, headers = [], body = Text ''Error missing parameters.''\<rparr>,
            [EvLogError], fs)
         else
           (case joinArg env (storagePath env) studyUid of
              Inl e \<Rightarrow> (Rejected e, [], fs)
            | Inr studyPath \<Rightarrow>
                (case joinArg env studyPath imageUid of
                   Inl e \<Rightarrow> (Rejected e, [], fs)
                 | Inr pathname \<Rightarrow>
                     if \<not> fileExists env fs pathname then
                       (Replied \<lparr>status = 500, headers = [],
                                 body = Text (''file not found '' @ pathname)\<rparr>,
                        [EvFileExists pathname, EvLogError], fs)
                     else
                       (case compressFile env fs pathname studyPath None of
                          (ok, fs') \<Rightarrow>
                            if \<not> ok then
                              (Replied \<lparr>status = 500, headers = [],
                                        body = Text (''failed to compress '' @ pathname)\<rparr>,
                               [EvFileExists pathname, EvCompressFile pathname studyPath None,
                                EvLogError], fs')
                            else
                              (case readFile env fs' pathname of
                                 Inl err \<Rightarrow>
                                   (Uncaught (NotAFunction ''setCode''),
                                    [EvFileExists pathname, EvCompressFile pathname studyPath None,
                                     EvReadFile pathname, EvLogError, EvLogError, EvLogError], fs')
                               | Inr data \<Rightarrow>
                                   (Replied \<lparr>status = 200,
                                             headers = [(''Content-Type'', ''application/dicom+json'')],
                                             body = Bytes (viewBytes data)\<rparr>,
                                    [EvFileExists pathname, EvCompressFile pathname studyPath None,
                                     EvReadFile pathname], fs'))))))"

section \<open>Metadata queries\<close>

text \<open>The common tail of the query handlers: \<^verbatim>\<open>await utils.doFind(level, query, tags)\<close>,
  then the reply with the \<^verbatim>\<open>application/dicom+json\<close> header.\<close>

definition findReply ::
  "'fs env \<Rightarrow> 'fs \<Rightarrow> level \<Rightarrow> query \<Rightarrow> string list \<Rightarrow> outcome \<times> event list \<times> 'fs" where
  "findReply env fs lvl q tags =
     (case doFind env fs lvl q tags of
        Inl e \<Rightarrow> (Rejected e, [EvDoFind lvl q tags], fs)
      | Inr js \<Rightarrow>
          (Replied \<lparr>status = 200, headers = [(''Content-Type'', ''application/dicom+json'')],
                    body = Json js\<rparr>,
           [EvDoFind lvl q tags], fs))"

text \<open>\<^verbatim>\<open>/rs/studies\<close> and \<^verbatim>\<open>/viewer/rs/studies\<close> (lines 55--69).\<close>

definition studies_handler :: "'fs env \<Rightarrow> 'fs \<Rightarrow> query \<Rightarrow> outcome \<times> event list \<times> 'fs" where
  "studies_handler env fs q = (let tags = studyLevelTags env in findReply env fs STUDY q tags)"

text \<open>\<^verbatim>\<open>/viewer/rs/studies/:studyInstanceUid/metadata\<close> (lines 73--81).\<close>

definition study_metadata_handler ::
  "'fs env \<Rightarrow> 'fs \<Rightarrow> string \<Rightarrow> query \<Rightarrow> outcome \<times> event list \<times> 'fs" where
  "study_metadata_handler env fs studyUidParam q =
     (let query = q(''StudyInstanceUID'' \<mapsto> QString studyUidParam);
          stTags = studyLevelTags env;
          serTags = seriesLevelTags env
      in findReply env fs SERIES query (stTags @ serTags))"

text \<open>\<^verbatim>\<open>/viewer/rs/studies/:studyInstanceUid/series\<close> (lines 85--93).\<close>

definition series_handler ::
  "'fs env \<Rightarrow> 'fs \<Rightarrow> string \<Rightarrow> query \<Rightarrow> outcome \<times> event list \<times> 'fs" where
  "series_handler env fs studyUidParam q =
     (let tags = seriesLevelTags env;
          query = q(''StudyInstanceUID'' \<mapsto> QString studyUidParam)
      in findReply env fs SERIES query tags)"

text \<open>\<^verbatim>\<open>/viewer/rs/studies/:studyInstanceUid/series/:seriesInstanceUid/instances\<close>
  (lines 97--106).\<close>

definition instances_handler ::
  "'fs env \<Rightarrow> 'fs \<Rightarrow> string \<Rightarrow> string \<Rightarrow> query \<Rightarrow> outcome \<times> event list \<times> 'fs" where
  "instances_handler env fs studyUidParam seriesUidParam q =
     (let tags = imageLevelTags env;
          query = q(''StudyInstanceUID'' \<mapsto> QString studyUidParam,
                    ''SeriesInstanceUID'' \<mapsto> QString seriesUidParam)
      in findReply env fs IMAGE query tags)"

text \<open>\<^verbatim>\<open>/viewer/rs/studies/:studyInstanceUid/series/:seriesInstanceUid/metadata\<close>
  (lines 110--121).\<close>

definition series_metadata_handler ::
  "'fs env \<Rightarrow> 'fs \<Rightarrow> string \<Rightarrow> string \<Rightarrow> query \<Rightarrow> outcome \<times> event list \<times> 'fs" where
  "series_metadata_handler env fs studyUidParam seriesUidParam q =
     (let stTags = studyLevelTags env;
          serTags = seriesLevelTags env;
          imTags = imageMetadataTags env;
          query = q(''StudyInstanceUID'' \<mapsto> QString studyUidParam,
                    ''SeriesInstanceUID'' \<mapsto> QString seriesUidParam)
      in findReply env fs IMAGE query (stTags @ serTags @ imTags))"

section \<open>Notions of the specification\<close>

text \<open>The paths that the logged collaborator calls were given.\<close>

fun pathsOf :: "event list \<Rightarrow> string list" where
  "pathsOf [] = []"
| "pathsOf (EvFileExists p # es) = p # pathsOf es"
| "pathsOf (EvCompressFile p d ts # es) = p # pathsOf es"
| "pathsOf (EvReadFile p # es) = p # pathsOf es"
| "pathsOf (e # es) = pathsOf es"

text \<open>The status of the reply a handler sent, if it sent one.\<close>

fun replyStatus :: "outcome \<Rightarrow> nat option" where
  "replyStatus (Replied r) = Some (status r)"
| "replyStatus (Rejected e) = None"
| "replyStatus (Uncaught e) = None"

text \<open>The storage location of an object: the configured root joined with the study
  identifier and then with the object identifier.\<close>

definition spec_locate :: "'fs env \<Rightarrow> string \<Rightarrow> string \<Rightarrow> string" where
  "spec_locate env studyUid objectUid =
     pathJoin env (pathJoin env (storagePath env) studyUid) objectUid"

text \<open>The object a frame request addresses can be served: its path exists, the transcode
  step resolves, and the file then reads and parses to the data set \<open>ds\<close>, whose pixel-data
  element \<open>el\<close> lies inside the array buffer.\<close>

definition spec_storedObject ::
  "'fs env \<Rightarrow> 'fs \<Rightarrow> frameParams \<Rightarrow> dataSet \<Rightarrow> element \<Rightarrow> bool" where
  "spec_storedObject env fs params ds el =
     (let studyPath = pathJoin env (storagePath env) (studyInstanceUid params);
          pathname = spec_locate env (studyInstanceUid params) (sopInstanceUid params)
      in fileExists env fs pathname \<and>
         (case compressFile env fs pathname studyPath (Some ''1.2.840.10008.1.2'') of
            (ok, fs') \<Rightarrow>
              ok \<and>
              (case readFile env fs' pathname of
                 Inl e \<Rightarrow> False
               | Inr data \<Rightarrow> parseDicom env data = Inr ds) \<and>
              elements ds ''x7fe00010'' = Some el \<and>
              dataOffset el + length_el el \<le> length (buffer (byteArray ds))))"

text \<open>The bytes of an element inside the data set's byte array: \<open>length_el\<close> bytes from
  \<open>dataOffset\<close>, counted from the start of the byte array (which itself starts at
  \<open>byteOffset\<close> of its array buffer).\<close>

definition spec_elementBytes :: "dataSet \<Rightarrow> element \<Rightarrow> byte list" where
  "spec_elementBytes ds el =
     take (length_el el) (drop (byteOffset (byteArray ds) + dataOffset el) (buffer (byteArray ds)))"

text \<open>A decimal numeral given by character codes, blanks ignored (the DICOM value
  representation IS is space-padded).\<close>

fun spec_digits :: "nat \<Rightarrow> nat list \<Rightarrow> nat option" where
  "spec_digits acc [] = Some acc"
| "spec_digits acc (c # cs) =
     (if c = 32 then spec_digits acc cs
      else if 48 \<le> c \<and> c \<le> 57 then spec_digits (10 * acc + (c - 48)) cs
      else None)"

text \<open>The frame index a request asks for: the route parameter \<^verbatim>\<open>frame\<close> read as a number.\<close>

definition spec_frameIndex :: "frameParams \<Rightarrow> nat option" where
  "spec_frameIndex params = spec_digits 0 (map of_char (frame params))"

text \<open>The frame count a stored object declares: the value of Number of Frames (0028,0008),
  and one when the element is absent.\<close>

definition spec_declaredFrameCount :: "dataSet \<Rightarrow> nat option" where
  "spec_declaredFrameCount ds =
     (case elements ds ''x00280008'' of
        None \<Rightarrow> Some 1
      | Some el \<Rightarrow> spec_digits 0 (map unat (spec_elementBytes ds el)))"

text \<open>The header value the specification gives for a frame reply.\<close>

definition spec_contentTypeHeader :: "string \<Rightarrow> string \<Rightarrow> string" where
  "spec_contentTypeHeader contentId boundary =
     ''multipart/related; start='' @ contentId @ ''; type='' @ [CHR 0x27] @
     ''application/octet-stream'' @ [CHR 0x27] @ ''; boundary='' @ [CHR 0x27] @ boundary @ [CHR 0x27]"

section \<open>A small concrete installation\<close>

text \<open>A file store with one object, and stand-ins for the collaborators: \<open>plainJoin\<close> is
  \<^verbatim>\<open>path.join\<close> on segments without separators or dots; \<open>demoParse\<close> reads a fixed layout,
  two bytes of Number of Frames followed by the pixel data.\<close>

definition plainJoin :: "string \<Rightarrow> string \<Rightarrow> string" where
  "plainJoin a b = a @ ''/'' @ b"

definition demoStore :: "string \<rightharpoonup> byte list" where
  "demoStore = [''/data/1.2.3/1.2.3.4'' \<mapsto> [0x31, 0x20, 0xAA, 0xBB, 0xCC, 0xDD]]"

definition demoDataSet :: "byteArray \<Rightarrow> dataSet" where
  "demoDataSet v =
     \<lparr>byteArray = v,
      elements = [''x00280008'' \<mapsto> \<lparr>dataOffset = 0, length_el = 2\<rparr>,
                  ''x7fe00010'' \<mapsto> \<lparr>dataOffset = 2, length_el = byteLength v - 2\<rparr>]\<rparr>"

definition demoParse :: "byteArray \<Rightarrow> thrown + dataSet" where
  "demoParse v = (if byteLength v < 2 then Inl (Collaborator ''short'') else Inr (demoDataSet v))"

definition demoRead :: "(string \<rightharpoonup> byte list) \<Rightarrow> string \<Rightarrow> thrown + byteArray" where
  "demoRead st p =
     (case st p of
        None \<Rightarrow> Inl (Collaborator ''ENOENT'')
      | Some bs \<Rightarrow> Inr \<lparr>buffer = bs, byteOffset = 0, byteLength = length bs\<rparr>)"

definition demoEnv :: "(string \<rightharpoonup> byte list) env" where
  "demoEnv =
     \<lparr>storagePath = ''/data'',
      pathJoin = plainJoin,
      fileExists = (\<lambda>st p. st p \<noteq> None),
      compressFile = (\<lambda>st p d ts. (True, st)),
      readFile = demoRead,
      parseDicom = demoParse,
      errorString = (\<lambda>e. ''Error''),
      studyLevelTags = [''00080020'', ''00100010''],
      seriesLevelTags = [''00080060'', ''0020000E''],
      imageLevelTags = [''00080018''],
      imageMetadataTags = [''00280010'', ''00280011''],
      doFind = (\<lambda>st lvl q tags. Inr [])\<rparr>"

definition demoParams :: "string \<Rightarrow> frameParams" where
  "demoParams f =
     \<lparr>studyInstanceUid = ''1.2.3'', seriesInstanceUid = ''1.2.3.9'',
      sopInstanceUid = ''1.2.3.4'', frame = f\<rparr>"

definition demoQuery :: "string \<Rightarrow> query" where
  "demoQuery obj =
     [''studyUID'' \<mapsto> QString ''1.2.3'', ''seriesUID'' \<mapsto> QString ''1.2.3.9'',
      ''objectUID'' \<mapsto> QString obj]"

definition demoQueryNoObject :: query where
  "demoQueryNoObject =
     [''studyUID'' \<mapsto> QString ''1.2.3'', ''seriesUID'' \<mapsto> QString ''1.2.3.9'']"

definition demoView :: byteArray where
  "demoView = \<lparr>buffer = [0x31, 0x20, 0xAA, 0xBB, 0xCC, 0xDD], byteOffset = 0, byteLength = 6\<rparr>"

definition demoRb1 :: "byte list" where
  "demoRb1 = [0x0A, 0x1B]"

definition demoRb2 :: "byte list" where
  "demoRb2 = [0xC3, 0x4D]"

section \<open>Auxiliary facts\<close>

lemma fromArrayBuffer_in_bounds:
  "off + len \<le> length ab \<Longrightarrow> fromArrayBuffer ab off len = Inr (take len (drop off ab))"
  by (simp add: fromArrayBuffer_def)

lemma fromArrayBuffer_Inr_bounds:
  "fromArrayBuffer ab off len = Inr bs \<Longrightarrow> off + len \<le> length ab"
  by (auto simp: fromArrayBuffer_def split: if_splits)

lemma readPixelData_served:
  assumes "readFile env fs p = Inr data" and "parseDicom env data = Inr ds"
    and "elements ds ''x7fe00010'' = Some el"
    and "dataOffset el + length_el el \<le> length (buffer (byteArray ds))"
  shows "readPixelData env fs p =
           Inr (take (length_el el) (drop (dataOffset el) (buffer (byteArray ds))))"
  using assms by (simp add: readPixelData_def fromArrayBuffer_in_bounds)

lemma readPixelData_Inr_cases:
  assumes "readPixelData env fs p = Inr buf"
  obtains data ds el where "readFile env fs p = Inr data" and "parseDicom env data = Inr ds"
    and "elements ds ''x7fe00010'' = Some el"
    and "dataOffset el + length_el el \<le> length (buffer (byteArray ds))"
  using assms
  by (auto simp: readPixelData_def split: sum.splits option.splits
      dest: fromArrayBuffer_Inr_bounds)

lemma frames_handler_served:
  assumes "spec_storedObject env fs params ds el"
  shows "fst (frames_handler env rb1 rb2 fs params) =
           \<lparr>status = 200,
            headers = [(''Content-Type'', contentTypeHeader (toHex rb2) (toHex rb1))],
            body = Stream (concat (streamChunks (toHex rb1) (toHex rb2)
                     (take (length_el el) (drop (dataOffset el) (buffer (byteArray ds))))))\<rparr>"
  using assms
  by (auto simp: spec_storedObject_def spec_locate_def frames_handler_def readPixelData_def
      fromArrayBuffer_in_bounds Let_def split: prod.splits sum.splits)

lemma frames_handler_absent:
  assumes "\<not> fileExists env fs (spec_locate env (studyInstanceUid params) (sopInstanceUid params))"
  shows "frames_handler env rb1 rb2 fs params =
           (\<lparr>status = 404, headers = [],
             body = Text (''File '' @ spec_locate env (studyInstanceUid params) (sopInstanceUid params)
                          @ '' not found!'')\<rparr>,
            [EvFileExists (spec_locate env (studyInstanceUid params) (sopInstanceUid params)),
             EvLogError], fs)"
  using assms by (simp add: frames_handler_def spec_locate_def Let_def)

lemma frames_status_200_iff:
  "status (fst (frames_handler env rb1 rb2 fs params)) = 200 \<longleftrightarrow>
     (\<exists>ds el. spec_storedObject env fs params ds el)"
proof
  assume ok: "status (fst (frames_handler env rb1 rb2 fs params)) = 200"
  let ?d = "pathJoin env (storagePath env) (studyInstanceUid params)"
  let ?p = "spec_locate env (studyInstanceUid params) (sopInstanceUid params)"
  obtain c fs' where cf: "compressFile env fs ?p ?d (Some ''1.2.840.10008.1.2'') = (c, fs')"
    by (cases "compressFile env fs ?p ?d (Some ''1.2.840.10008.1.2'')")
  from ok have ex: "fileExists env fs ?p"
    by (auto simp: frames_handler_def spec_locate_def Let_def split: if_splits)
  from ok ex cf have c: "c"
    by (auto simp: frames_handler_def spec_locate_def Let_def split: if_splits)
  from ok ex cf c obtain buf where "readPixelData env fs' ?p = Inr buf"
    by (auto simp: frames_handler_def spec_locate_def Let_def split: if_splits sum.splits)
  then obtain data ds el where "readFile env fs' ?p = Inr data" "parseDicom env data = Inr ds"
    "elements ds ''x7fe00010'' = Some el"
    "dataOffset el + length_el el \<le> length (buffer (byteArray ds))"
    by (rule readPixelData_Inr_cases)
  with ex cf c have "spec_storedObject env fs params ds el"
    by (simp add: spec_storedObject_def Let_def)
  then show "\<exists>ds el. spec_storedObject env fs params ds el" by blast
next
  assume "\<exists>ds el. spec_storedObject env fs params ds el"
  then obtain ds el where "spec_storedObject env fs params ds el" by blast
  then show "status (fst (frames_handler env rb1 rb2 fs params)) = 200"
    by (simp add: frames_handler_served)
qed

lemma frames_status_range:
  "status (fst (frames_handler env rb1 rb2 fs params)) \<in> {200, 404, 500}"
  by (auto simp: frames_handler_def Let_def split: prod.splits sum.splits)

lemma frames_handler_frame_irrelevant:
  "frames_handler env rb1 rb2 fs (params\<lparr>frame := f\<rparr>) = frames_handler env rb1 rb2 fs params"
  by (simp add: frames_handler_def)

lemma frames_handler_series_irrelevant:
  "frames_handler env rb1 rb2 fs (params\<lparr>seriesInstanceUid := s\<rparr>) =
     frames_handler env rb1 rb2 fs params"
  by (simp add: frames_handler_def)

lemma spec_elementBytes_offset0:
  "byteOffset (byteArray ds) = 0 \<Longrightarrow>
     spec_elementBytes ds el = take (length_el el) (drop (dataOffset el) (buffer (byteArray ds)))"
  by (simp add: spec_elementBytes_def)

lemma stream_contains_marker:
  "sublist (bytesOf ''Content-Type:application/octet-stream'') (concat (streamChunks b c buf))"
proof -
  have "concat (streamChunks b c buf) =
      (bytesOf (term_crlf @ ''--'' @ b @ term_crlf) @ bytesOf (''Content-Location:localhost'' @ term_crlf)
        @ bytesOf (''Content-ID:'' @ c @ term_crlf)) @
      bytesOf ''Content-Type:application/octet-stream'' @
      (bytesOf term_crlf @ bytesOf term_crlf @ buf @ bytesOf (term_crlf @ ''--'' @ b @ ''--'' @ term_crlf))"
    by (simp add: streamChunks_def bytesOf_def)
  then show ?thesis by (metis sublist_appendI)
qed

lemma stream_contains_payload: "sublist buf (concat (streamChunks b c buf))"
proof -
  have "concat (streamChunks b c buf) =
      (bytesOf (term_crlf @ ''--'' @ b @ term_crlf) @ bytesOf (''Content-Location:localhost'' @ term_crlf)
        @ bytesOf (''Content-ID:'' @ c @ term_crlf)
        @ bytesOf (''Content-Type:application/octet-stream'' @ term_crlf) @ bytesOf term_crlf) @
      buf @ bytesOf (term_crlf @ ''--'' @ b @ ''--'' @ term_crlf)"
    by (simp add: streamChunks_def)
  then show ?thesis by (metis sublist_appendI)
qed

lemma demo_stored:
  "spec_storedObject demoEnv demoStore (demoParams f) (demoDataSet demoView)
     \<lparr>dataOffset = 2, length_el = 4\<rparr>"
  by (simp add: spec_storedObject_def spec_locate_def demoEnv_def demoStore_def demoParams_def
      plainJoin_def demoRead_def demoParse_def demoDataSet_def demoView_def eval_nat_numeral)

lemma demo_frame_count: "spec_declaredFrameCount (demoDataSet demoView) = Some 1"
  by (simp add: spec_declaredFrameCount_def spec_elementBytes_def demoDataSet_def demoView_def)

lemma demo_absent:
  "\<not> fileExists demoEnv demoStore (spec_locate demoEnv ''1.2.3'' ''9.9.9'')"
  by (simp add: spec_locate_def demoEnv_def demoStore_def plainJoin_def)

section \<open>Frame retrieval: the frame index\<close>

text \<open>C1, as amended. The frame endpoint never compares the frame index with the declared
  frame count: for every value of the route parameter \<^verbatim>\<open>frame\<close> the reply's status is 404
  when the path is absent, 200 when the object can be served, and 500 otherwise (the
  transcode step, the read, the parse or the window on the pixel data failed).\<close>

theorem frames_status_ignores_frame:
  "status (fst (frames_handler env ra rb fs (params\<lparr>frame := f\<rparr>))) =
     (if \<not> fileExists env fs (spec_locate env (studyInstanceUid params) (sopInstanceUid params))
      then 404
      else if \<exists>ds el. spec_storedObject env fs params ds el then 200
      else 500)"
proof -
  let ?r = "fst (frames_handler env ra rb fs params)"
  have same: "frames_handler env ra rb fs (params\<lparr>frame := f\<rparr>) = frames_handler env ra rb fs params"
    by (rule frames_handler_frame_irrelevant)
  show ?thesis
  proof (cases "fileExists env fs (spec_locate env (studyInstanceUid params) (sopInstanceUid params))")
    case False
    then show ?thesis
      by (simp add: same frames_handler_absent)
  next
    case True
    then have not404: "status ?r \<noteq> 404"
      by (auto simp: frames_handler_def spec_locate_def Let_def split: prod.splits sum.splits)
    have "status ?r \<in> {200, 404, 500}" by (rule frames_status_range)
    with not404 have "status ?r = 200 \<or> status ?r = 500" by auto
    with True show ?thesis
      using frames_status_200_iff [of env ra rb fs params] by (auto simp: same)
  qed
qed

theorem frames_status_ignores_frame_witness:
  "spec_frameIndex ((demoParams ''1'')\<lparr>frame := ''5''\<rparr>) = Some 5 \<and>
   spec_declaredFrameCount (demoDataSet demoView) = Some 1 \<and>
   status (fst (frames_handler demoEnv demoRb1 demoRb2 demoStore ((demoParams ''1'')\<lparr>frame := ''5''\<rparr>))) = 200"
proof -
  have served: "\<exists>ds el. spec_storedObject demoEnv demoStore (demoParams ''1'') ds el"
    using demo_stored by blast
  have ex: "fileExists demoEnv demoStore
              (spec_locate demoEnv (studyInstanceUid (demoParams ''1'')) (sopInstanceUid (demoParams ''1'')))"
    by (simp add: spec_locate_def demoEnv_def demoStore_def demoParams_def plainJoin_def)
  have "status (fst (frames_handler demoEnv demoRb1 demoRb2 demoStore ((demoParams ''1'')\<lparr>frame := ''5''\<rparr>))) = 200"
    using frames_status_ignores_frame [where env = demoEnv and ra = demoRb1 and rb = demoRb2
          and fs = demoStore and params = "demoParams ''1''" and f = "''5''"]
      served ex by simp
  moreover have "spec_frameIndex ((demoParams ''1'')\<lparr>frame := ''5''\<rparr>) = Some 5"
    by (simp add: spec_frameIndex_def demoParams_def)
  ultimately show ?thesis by (simp add: demo_frame_count)
qed

text \<open>C1, as stated, fails: frame 5 of an object that declares one frame is answered with
  status 200, not 500.\<close>

theorem frame_bounds_check_counterexample:
  "spec_frameIndex (demoParams ''5'') = Some 5 \<and>
   spec_declaredFrameCount (demoDataSet demoView) = Some 1 \<and>
   spec_storedObject demoEnv demoStore (demoParams ''5'') (demoDataSet demoView)
     \<lparr>dataOffset = 2, length_el = 4\<rparr> \<and>
   status (fst (frames_handler demoEnv demoRb1 demoRb2 demoStore (demoParams ''5''))) = 200 \<and>
   status (fst (frames_handler demoEnv demoRb1 demoRb2 demoStore (demoParams ''5''))) \<noteq> 500"
proof -
  have "spec_frameIndex (demoParams ''5'') = Some 5"
    by (simp add: spec_frameIndex_def demoParams_def)
  moreover have "status (fst (frames_handler demoEnv demoRb1 demoRb2 demoStore (demoParams ''5''))) = 200"
    by (simp add: frames_handler_served [OF demo_stored])
  ultimately show ?thesis by (simp add: demo_frame_count demo_stored)
qed

section \<open>Frame retrieval: the multipart reply\<close>

text \<open>C2. The specification gives the header of a successful frame reply as
  \<^verbatim>\<open>multipart/related; start=<contentId>; type='application/octet-stream'; boundary='<boundary>'\<close>.
  The handler writes the type token as \<^verbatim>\<open>application/octed-stream\<close> (line 164), although
  the part header it pushes into the body reads \<^verbatim>\<open>application/octet-stream\<close> (line 171).
  For the stored object of the small installation, with random bytes 0a 1b and c3 4d, the
  header is the misspelt one, differs from the specified one and does not contain
  \<^verbatim>\<open>application/octet-stream\<close>, while the body does contain the correctly spelt part header.\<close>

theorem frames_header_type_token:
  "headers (fst (frames_handler demoEnv demoRb1 demoRb2 demoStore (demoParams ''1''))) =
     [(''Content-Type'',
       ''multipart/related;start=c34d;type='' @ [CHR 0x27] @ ''application/octed-stream'' @
       [CHR 0x27] @ '';boundary='' @ [CHR 0x27] @ ''0a1b'' @ [CHR 0x27])] \<and>
   contentTypeHeader ''c34d'' ''0a1b'' \<noteq> spec_contentTypeHeader ''c34d'' ''0a1b'' \<and>
   \<not> sublist ''application/octet-stream'' (contentTypeHeader ''c34d'' ''0a1b'') \<and>
   sublist (bytesOf ''Content-Type:application/octet-stream'')
     (concat (streamChunks ''0a1b'' ''c34d'' [0xAA, 0xBB, 0xCC, 0xDD]))"
proof -
  have "headers (fst (frames_handler demoEnv demoRb1 demoRb2 demoStore (demoParams ''1''))) =
     [(''Content-Type'',
       ''multipart/related;start=c34d;type='' @ [CHR 0x27] @ ''application/octed-stream'' @
       [CHR 0x27] @ '';boundary='' @ [CHR 0x27] @ ''0a1b'' @ [CHR 0x27])]"
    by (simp add: frames_handler_served [OF demo_stored] contentTypeHeader_def toHex_def
        hexDigit_def demoRb1_def demoRb2_def)
  moreover have "contentTypeHeader ''c34d'' ''0a1b'' \<noteq> spec_contentTypeHeader ''c34d'' ''0a1b''"
    by (simp add: contentTypeHeader_def spec_contentTypeHeader_def)
  moreover have "\<not> sublist ''application/octet-stream'' (contentTypeHeader ''c34d'' ''0a1b'')"
    by (simp add: contentTypeHeader_def sublist_Cons_right prefix_Cons)
  ultimately show ?thesis by (simp add: stream_contains_marker)
qed

text \<open>C4. A successful frame reply has one part: the delimiter line \<^verbatim>\<open>--boundary\<close>, the
  headers \<^verbatim>\<open>Content-Location\<close>, \<^verbatim>\<open>Content-ID\<close> and \<^verbatim>\<open>Content-Type:application/octet-stream\<close>,
  an empty line, the pixel-data bytes, and the closing delimiter \<^verbatim>\<open>--boundary--\<close> followed by
  the line terminator; the boundary and the content identifier in the body are the tokens
  of the reply's \<^verbatim>\<open>Content-Type\<close> header.\<close>

theorem frames_multipart_envelope:
  assumes "spec_storedObject env fs params ds el"
    and "boundary = toHex ra" and "contentId = toHex rb"
    and "payload = take (length_el el) (drop (dataOffset el) (buffer (byteArray ds)))"
  shows "headers (fst (frames_handler env ra rb fs params)) =
           [(''Content-Type'',
             ''multipart/related;start='' @ contentId @ '';type='' @ [CHR 0x27] @
             ''application/octed-stream'' @ [CHR 0x27] @ '';boundary='' @ [CHR 0x27] @ boundary @
             [CHR 0x27])] \<and>
         body (fst (frames_handler env ra rb fs params)) =
           Stream (bytesOf term_crlf @ bytesOf ''--'' @ bytesOf boundary @ bytesOf term_crlf @
                   bytesOf ''Content-Location:localhost'' @ bytesOf term_crlf @
                   bytesOf ''Content-ID:'' @ bytesOf contentId @ bytesOf term_crlf @
                   bytesOf ''Content-Type:application/octet-stream'' @ bytesOf term_crlf @
                   bytesOf term_crlf @
                   payload @
                   bytesOf term_crlf @ bytesOf ''--'' @ bytesOf boundary @ bytesOf ''--'' @
                   bytesOf term_crlf)"
  using assms(2-4)
  by (simp add: frames_handler_served [OF assms(1)] contentTypeHeader_def streamChunks_def
      bytesOf_def)

theorem frames_multipart_envelope_witness:
  "headers (fst (frames_handler demoEnv demoRb1 demoRb2 demoStore (demoParams ''1''))) =
     [(''Content-Type'',
       ''multipart/related;start=c34d;type='' @ [CHR 0x27] @ ''application/octed-stream'' @
       [CHR 0x27] @ '';boundary='' @ [CHR 0x27] @ ''0a1b'' @ [CHR 0x27])] \<and>
   body (fst (frames_handler demoEnv demoRb1 demoRb2 demoStore (demoParams ''1''))) =
     Stream (bytesOf term_crlf @ bytesOf ''--0a1b'' @ bytesOf term_crlf @
             bytesOf ''Content-Location:localhost'' @ bytesOf term_crlf @
             bytesOf ''Content-ID:c34d'' @ bytesOf term_crlf @
             bytesOf ''Content-Type:application/octet-stream'' @ bytesOf term_crlf @
             bytesOf term_crlf @
             [0xAA, 0xBB, 0xCC, 0xDD] @
             bytesOf term_crlf @ bytesOf ''--0a1b--'' @ bytesOf term_crlf)"
proof -
  have b: "''0a1b'' = toHex demoRb1" and c: "''c34d'' = toHex demoRb2"
    by (simp_all add: toHex_def hexDigit_def demoRb1_def demoRb2_def)
  have p: "[0xAA, 0xBB, 0xCC, 0xDD] =
      take (length_el \<lparr>dataOffset = 2, length_el = 4\<rparr>)
        (drop (dataOffset \<lparr>dataOffset = 2, length_el = 4\<rparr>) (buffer (byteArray (demoDataSet demoView))))"
    by (simp add: demoDataSet_def demoView_def eval_nat_numeral)
  show ?thesis
    using frames_multipart_envelope [OF demo_stored b c p, of "''1''"]
    by (simp add: bytesOf_def)
qed

text \<open>C5. Frame 1 of an existing single-frame object is answered with status 200; the
  \<^verbatim>\<open>Content-Type\<close> header starts with \<^verbatim>\<open>multipart/related\<close>; the body contains the marker
  \<^verbatim>\<open>Content-Type:application/octet-stream\<close> and the \<open>length_el\<close> bytes found at the pixel-data
  element's \<open>dataOffset\<close> in \<^verbatim>\<open>dataset.byteArray.buffer\<close>, which are the element's bytes when
  the byte array starts at offset 0 of its array buffer.\<close>

theorem frames_single_frame_success:
  assumes "spec_storedObject env fs params ds el"
    and "spec_declaredFrameCount ds = Some 1"
    and "frame params = ''1''"
  shows "status (fst (frames_handler env ra rb fs params)) = 200 \<and>
         (\<exists>ct. headers (fst (frames_handler env ra rb fs params)) = [(''Content-Type'', ct)] \<and>
               prefix ''multipart/related'' ct) \<and>
         (\<exists>bs. body (fst (frames_handler env ra rb fs params)) = Stream bs \<and>
               sublist (take (length_el el) (drop (dataOffset el) (buffer (byteArray ds)))) bs \<and>
               (byteOffset (byteArray ds) = 0 \<longrightarrow> sublist (spec_elementBytes ds el) bs) \<and>
               sublist (bytesOf ''Content-Type:application/octet-stream'') bs)"
proof -
  have pre: "prefix ''multipart/related'' (contentTypeHeader (toHex rb) (toHex ra))"
    by (simp add: contentTypeHeader_def)
  show ?thesis
    using pre
    by (simp add: frames_handler_served [OF assms(1)] stream_contains_payload
        stream_contains_marker spec_elementBytes_offset0)
qed

theorem frames_single_frame_success_witness:
  "status (fst (frames_handler demoEnv demoRb1 demoRb2 demoStore (demoParams ''1''))) = 200 \<and>
   byteOffset (byteArray (demoDataSet demoView)) = 0 \<and>
   spec_elementBytes (demoDataSet demoView) \<lparr>dataOffset = 2, length_el = 4\<rparr> =
     [0xAA, 0xBB, 0xCC, 0xDD] \<and>
   (\<exists>bs. body (fst (frames_handler demoEnv demoRb1 demoRb2 demoStore (demoParams ''1''))) = Stream bs \<and>
         sublist [0xAA, 0xBB, 0xCC, 0xDD] bs \<and>
         sublist (bytesOf ''Content-Type:application/octet-stream'') bs)"
proof -
  have f: "frame (demoParams ''1'') = ''1''"
    by (simp add: demoParams_def)
  have z: "byteOffset (byteArray (demoDataSet demoView)) = 0"
    by (simp add: demoDataSet_def demoView_def)
  have e: "spec_elementBytes (demoDataSet demoView) \<lparr>dataOffset = 2, length_el = 4\<rparr> =
      [0xAA, 0xBB, 0xCC, 0xDD]"
    by (simp add: spec_elementBytes_def demoDataSet_def demoView_def eval_nat_numeral)
  show ?thesis
    using frames_single_frame_success [OF demo_stored demo_frame_count f, of demoRb1 demoRb2] z e
    by auto
qed

section \<open>Absent objects\<close>

text \<open>C3, as amended. When the stored object's path is absent, the frame endpoint replies
  404 with the plain-text body \<^verbatim>\<open>File {path} not found!\<close>, and the legacy endpoint, given its
  three parameters as non-empty strings, replies 500 with the plain-text body
  \<^verbatim>\<open>file not found {path}\<close>.\<close>

theorem absent_object_replies:
  "(\<not> fileExists env fs (spec_locate env (studyInstanceUid params) (sopInstanceUid params)) \<longrightarrow>
      fst (frames_handler env ra rb fs params) =
        \<lparr>status = 404, headers = [],
         body = Text (''File '' @ spec_locate env (studyInstanceUid params) (sopInstanceUid params)
                      @ '' not found!'')\<rparr>) \<and>
   (q ''studyUID'' = Some (QString st) \<and> st \<noteq> [] \<and> truthy (q ''seriesUID'') \<and>
    q ''objectUID'' = Some (QString ob) \<and> ob \<noteq> [] \<and>
    \<not> fileExists env fs (spec_locate env st ob) \<longrightarrow>
      fst (wadouri_handler env fs q) =
        Replied \<lparr>status = 500, headers = [],
                 body = Text (''file not found '' @ spec_locate env st ob)\<rparr>)"
  by (simp add: frames_handler_absent wadouri_handler_def spec_locate_def Let_def)

theorem absent_object_replies_witness:
  "\<not> fileExists demoEnv demoStore (spec_locate demoEnv ''1.2.3'' ''9.9.9'') \<and>
   fst (frames_handler demoEnv demoRb1 demoRb2 demoStore
          ((demoParams ''1'')\<lparr>sopInstanceUid := ''9.9.9''\<rparr>)) =
     \<lparr>status = 404, headers = [], body = Text ''File /data/1.2.3/9.9.9 not found!''\<rparr> \<and>
   fst (wadouri_handler demoEnv demoStore (demoQuery ''9.9.9'')) =
     Replied \<lparr>status = 500, headers = [], body = Text ''file not found /data/1.2.3/9.9.9''\<rparr>"
proof -
  have loc: "spec_locate demoEnv ''1.2.3'' ''9.9.9'' = ''/data/1.2.3/9.9.9''"
    by (simp add: spec_locate_def demoEnv_def plainJoin_def)
  show ?thesis
    using absent_object_replies [where env = demoEnv and fs = demoStore and ra = demoRb1
        and rb = demoRb2 and params = "(demoParams ''1'')\<lparr>sopInstanceUid := ''9.9.9''\<rparr>"
        and q = "demoQuery ''9.9.9''" and st = "''1.2.3''" and ob = "''9.9.9''"]
      demo_absent
    by (simp add: loc demoParams_def demoQuery_def)
qed

text \<open>C3, as stated, fails on the legacy endpoint: for an absent object it replies 500, not
  404.\<close>

theorem wadouri_absent_counterexample:
  "\<not> fileExists demoEnv demoStore (spec_locate demoEnv ''1.2.3'' ''9.9.9'') \<and>
   fst (wadouri_handler demoEnv demoStore (demoQuery ''9.9.9'')) =
     Replied \<lparr>status = 500, headers = [], body = Text ''file not found /data/1.2.3/9.9.9''\<rparr> \<and>
   replyStatus (fst (wadouri_handler demoEnv demoStore (demoQuery ''9.9.9''))) = Some 500 \<and>
   replyStatus (fst (wadouri_handler demoEnv demoStore (demoQuery ''9.9.9''))) \<noteq> Some 404"
  by (simp add: wadouri_handler_def spec_locate_def demoEnv_def demoStore_def demoQuery_def
      plainJoin_def)

text \<open>C6. When the resolved path of a frame request does not exist, the reply is 404 with
  the body \<^verbatim>\<open>File {path} not found!\<close>; the only collaborator calls are the existence check
  and the log, the file store is unchanged, and the reply is the same whatever the
  transcode step, the file read and the parser would do.\<close>

theorem frames_absent_before_work:
  assumes "\<not> fileExists env fs (spec_locate env (studyInstanceUid params) (sopInstanceUid params))"
  shows "frames_handler env ra rb fs params =
           (\<lparr>status = 404, headers = [],
             body = Text (''File '' @ spec_locate env (studyInstanceUid params) (sopInstanceUid params)
                          @ '' not found!'')\<rparr>,
            [EvFileExists (spec_locate env (studyInstanceUid params) (sopInstanceUid params)),
             EvLogError], fs) \<and>
         frames_handler (env\<lparr>compressFile := cf, readFile := rf, parseDicom := pd\<rparr>) ra rb fs params =
           frames_handler env ra rb fs params"
  using assms by (simp add: frames_handler_def spec_locate_def Let_def)

theorem frames_absent_before_work_witness:
  "\<not> fileExists demoEnv demoStore (spec_locate demoEnv ''1.2.3'' ''9.9.9'') \<and>
   frames_handler demoEnv demoRb1 demoRb2 demoStore ((demoParams ''1'')\<lparr>sopInstanceUid := ''9.9.9''\<rparr>) =
     (\<lparr>status = 404, headers = [], body = Text ''File /data/1.2.3/9.9.9 not found!''\<rparr>,
      [EvFileExists ''/data/1.2.3/9.9.9'', EvLogError], demoStore)"
proof -
  have loc: "spec_locate demoEnv ''1.2.3'' ''9.9.9'' = ''/data/1.2.3/9.9.9''"
    by (simp add: spec_locate_def demoEnv_def plainJoin_def)
  have absent: "\<not> fileExists demoEnv demoStore
      (spec_locate demoEnv (studyInstanceUid ((demoParams ''1'')\<lparr>sopInstanceUid := ''9.9.9''\<rparr>))
         (sopInstanceUid ((demoParams ''1'')\<lparr>sopInstanceUid := ''9.9.9''\<rparr>)))"
    using demo_absent by (simp add: demoParams_def)
  show ?thesis
    using frames_absent_before_work [OF absent, of demoRb1 demoRb2] demo_absent
    by (simp add: loc demoParams_def)
qed

section \<open>Legacy retrieval: missing parameters\<close>

text \<open>C7. When one of the query parameters \<^verbatim>\<open>studyUID\<close>, \<^verbatim>\<open>seriesUID\<close>, \<^verbatim>\<open>objectUID\<close> is
  missing (or empty), the legacy endpoint replies 500 with the body
  \<^verbatim>\<open>Error missing parameters.\<close>; it only logs: no path is resolved, no collaborator reaches
  the file store, and the file store is unchanged.\<close>

theorem wadouri_missing_parameters:
  assumes "\<not> truthy (q ''studyUID'') \<or> \<not> truthy (q ''seriesUID'') \<or> \<not> truthy (q ''objectUID'')"
  shows "wadouri_handler env fs q =
           (Replied \<lparr>status = 500, headers = [], body = Text ''Error missing parameters.''\<rparr>,
            [EvLogError], fs) \<and>
         pathsOf (fst (snd (wadouri_handler env fs q))) = []"
  using assms by (auto simp: wadouri_handler_def Let_def)

theorem wadouri_missing_parameters_witness:
  "demoQueryNoObject ''objectUID'' = None \<and>
   wadouri_handler demoEnv demoStore demoQueryNoObject =
     (Replied \<lparr>status = 500, headers = [], body = Text ''Error missing parameters.''\<rparr>,
      [EvLogError], demoStore)"
proof -
  have none: "demoQueryNoObject ''objectUID'' = None"
    by (simp add: demoQueryNoObject_def)
  then have missing: "\<not> truthy (demoQueryNoObject ''studyUID'') \<or>
      \<not> truthy (demoQueryNoObject ''seriesUID'') \<or> \<not> truthy (demoQueryNoObject ''objectUID'')"
    by simp
  show ?thesis
    using wadouri_missing_parameters [OF missing, of demoEnv demoStore] none by simp
qed

section \<open>Storage location\<close>

text \<open>C8. The storage location is the configured root joined with the study identifier and
  then with the object identifier. It depends on the root, the join and these two
  identifiers only: every path the frame handler hands to a collaborator is this one, and so
  is every path of the legacy handler; the series identifier changes neither the frame
  handler's result nor, as long as it is present, the legacy handler's.\<close>

theorem storage_location_resolution:
  "(storagePath env' = storagePath env \<and> pathJoin env' = pathJoin env \<longrightarrow>
      spec_locate env' st ob = spec_locate env st ob) \<and>
   set (pathsOf (fst (snd (frames_handler env ra rb fs params)))) =
     {spec_locate env (studyInstanceUid params) (sopInstanceUid params)} \<and>
   frames_handler env ra rb fs (params\<lparr>seriesInstanceUid := s\<rparr>) =
     frames_handler env ra rb fs params \<and>
   (q ''studyUID'' = Some (QString st) \<and> q ''objectUID'' = Some (QString ob) \<longrightarrow>
      set (pathsOf (fst (snd (wadouri_handler env fs q)))) \<subseteq> {spec_locate env st ob}) \<and>
   (truthy v \<and> truthy v' \<longrightarrow>
      wadouri_handler env fs (q(''seriesUID'' := v)) = wadouri_handler env fs (q(''seriesUID'' := v')))"
proof -
  have a: "storagePath env' = storagePath env \<and> pathJoin env' = pathJoin env \<longrightarrow>
      spec_locate env' st ob = spec_locate env st ob"
    by (simp add: spec_locate_def)
  have b: "set (pathsOf (fst (snd (frames_handler env ra rb fs params)))) =
     {spec_locate env (studyInstanceUid params) (sopInstanceUid params)}"
    by (simp add: frames_handler_def spec_locate_def Let_def split: prod.splits sum.splits)
  have c: "q ''studyUID'' = Some (QString st) \<and> q ''objectUID'' = Some (QString ob) \<longrightarrow>
      set (pathsOf (fst (snd (wadouri_handler env fs q)))) \<subseteq> {spec_locate env st ob}"
    by (simp add: wadouri_handler_def spec_locate_def Let_def split: prod.splits sum.splits)
  have d: "truthy v \<and> truthy v' \<longrightarrow>
      wadouri_handler env fs (q(''seriesUID'' := v)) = wadouri_handler env fs (q(''seriesUID'' := v'))"
    by (simp add: wadouri_handler_def Let_def)
  show ?thesis
    using a b c d by (simp only: frames_handler_series_irrelevant simp_thms)
qed

theorem storage_location_resolution_witness:
  "spec_locate demoEnv ''1.2.3'' ''1.2.3.4'' = ''/data/1.2.3/1.2.3.4'' \<and>
   set (pathsOf (fst (snd (frames_handler demoEnv demoRb1 demoRb2 demoStore (demoParams ''1''))))) =
     {''/data/1.2.3/1.2.3.4''} \<and>
   set (pathsOf (fst (snd (wadouri_handler demoEnv demoStore (demoQuery ''1.2.3.4''))))) \<subseteq>
     {''/data/1.2.3/1.2.3.4''} \<and>
   wadouri_handler demoEnv demoStore ((demoQuery ''1.2.3.4'')(''seriesUID'' := Some (QString ''7.7''))) =
     wadouri_handler demoEnv demoStore ((demoQuery ''1.2.3.4'')(''seriesUID'' := Some (QArray [''8'', ''9''])))"
proof -
  have loc: "spec_locate demoEnv ''1.2.3'' ''1.2.3.4'' = ''/data/1.2.3/1.2.3.4''"
    by (simp add: spec_locate_def demoEnv_def plainJoin_def)
  have q: "demoQuery ''1.2.3.4'' ''studyUID'' = Some (QString ''1.2.3'') \<and>
      demoQuery ''1.2.3.4'' ''objectUID'' = Some (QString ''1.2.3.4'')"
    by (simp add: demoQuery_def)
  have t: "truthy (Some (QString ''7.7'')) \<and> truthy (Some (QArray [''8'', ''9'']))"
    by simp
  have p: "studyInstanceUid (demoParams ''1'') = ''1.2.3'' \<and> sopInstanceUid (demoParams ''1'') = ''1.2.3.4''"
    by (simp add: demoParams_def)
  show ?thesis
    using storage_location_resolution [where env = demoEnv and env' = demoEnv and ra = demoRb1
        and rb = demoRb2 and fs = demoStore and params = "demoParams ''1''"
        and q = "demoQuery ''1.2.3.4''" and st = "''1.2.3''" and ob = "''1.2.3.4''"
        and v = "Some (QString ''7.7'')" and v' = "Some (QArray [''8'', ''9''])"]
      q t
    by (simp only: loc p simp_thms)
qed

section \<open>Metadata queries: tag projections\<close>

text \<open>C9. The study-metadata endpoint calls the query executor once, at level SERIES, with
  the study-level tags followed by the series-level tags; the series-metadata endpoint calls
  it once, at level IMAGE, with the study-level tags, then the series-level tags, then the
  image-metadata tags. The reply carries what the executor returned for exactly that
  call.\<close>

theorem metadata_tag_composition:
  "fst (snd (study_metadata_handler env fs studyUid q)) =
     [EvDoFind SERIES (q(''StudyInstanceUID'' \<mapsto> QString studyUid))
        (studyLevelTags env @ seriesLevelTags env)] \<and>
   fst (snd (series_metadata_handler env fs studyUid seriesUid q)) =
     [EvDoFind IMAGE (q(''StudyInstanceUID'' \<mapsto> QString studyUid,
                        ''SeriesInstanceUID'' \<mapsto> QString seriesUid))
        (studyLevelTags env @ seriesLevelTags env @ imageMetadataTags env)] \<and>
   fst (study_metadata_handler env fs studyUid q) =
     fst (findReply env fs SERIES (q(''StudyInstanceUID'' \<mapsto> QString studyUid))
            (studyLevelTags env @ seriesLevelTags env)) \<and>
   fst (series_metadata_handler env fs studyUid seriesUid q) =
     fst (findReply env fs IMAGE (q(''StudyInstanceUID'' \<mapsto> QString studyUid,
                                    ''SeriesInstanceUID'' \<mapsto> QString seriesUid))
            (studyLevelTags env @ seriesLevelTags env @ imageMetadataTags env))"
  by (simp add: study_metadata_handler_def series_metadata_handler_def findReply_def Let_def
      split: sum.splits)

theorem metadata_tag_composition_witness:
  "fst (snd (study_metadata_handler demoEnv demoStore ''1.2.3'' Map.empty)) =
     [EvDoFind SERIES [''StudyInstanceUID'' \<mapsto> QString ''1.2.3'']
        [''00080020'', ''00100010'', ''00080060'', ''0020000E'']] \<and>
   fst (snd (series_metadata_handler demoEnv demoStore ''1.2.3'' ''1.2.3.9'' Map.empty)) =
     [EvDoFind IMAGE [''StudyInstanceUID'' \<mapsto> QString ''1.2.3'',
                      ''SeriesInstanceUID'' \<mapsto> QString ''1.2.3.9'']
        [''00080020'', ''00100010'', ''00080060'', ''0020000E'', ''00280010'', ''00280011'']]"
proof -
  have tags: "studyLevelTags demoEnv = [''00080020'', ''00100010''] \<and>
      seriesLevelTags demoEnv = [''00080060'', ''0020000E''] \<and>
      imageMetadataTags demoEnv = [''00280010'', ''00280011'']"
    by (simp add: demoEnv_def)
  show ?thesis
    using metadata_tag_composition [of demoEnv demoStore "''1.2.3''" Map.empty "''1.2.3.9''"] tags
    by simp
qed

section \<open>Frame retrieval: no influence of the frame parameter\<close>

text \<open>C10. Two frame requests that differ only in the frame index get the same reply
  (status, headers and body), make the same collaborator calls and leave the same file
  store, the random tokens being equal; and whenever the object can be served, the bytes
  in the reply are the whole window of the pixel-data element (\<open>length_el\<close> bytes at
  \<open>dataOffset\<close> of the array buffer), whatever the frame index.\<close>

theorem frame_parameter_no_influence:
  "frames_handler env ra rb fs (params\<lparr>frame := f\<rparr>) =
     frames_handler env ra rb fs (params\<lparr>frame := f'\<rparr>) \<and>
   (spec_storedObject env fs params ds el \<longrightarrow>
      body (fst (frames_handler env ra rb fs (params\<lparr>frame := f\<rparr>))) =
        Stream (concat (streamChunks (toHex ra) (toHex rb)
                  (take (length_el el) (drop (dataOffset el) (buffer (byteArray ds)))))) \<and>
      (byteOffset (byteArray ds) = 0 \<longrightarrow>
         body (fst (frames_handler env ra rb fs (params\<lparr>frame := f\<rparr>))) =
           Stream (concat (streamChunks (toHex ra) (toHex rb) (spec_elementBytes ds el)))))"
  by (simp add: frames_handler_frame_irrelevant frames_handler_served spec_elementBytes_offset0)

theorem frame_parameter_no_influence_witness:
  "frames_handler demoEnv demoRb1 demoRb2 demoStore ((demoParams ''1'')\<lparr>frame := ''1''\<rparr>) =
     frames_handler demoEnv demoRb1 demoRb2 demoStore ((demoParams ''1'')\<lparr>frame := ''7''\<rparr>) \<and>
   spec_elementBytes (demoDataSet demoView) \<lparr>dataOffset = 2, length_el = 4\<rparr> =
     [0xAA, 0xBB, 0xCC, 0xDD] \<and>
   body (fst (frames_handler demoEnv demoRb1 demoRb2 demoStore ((demoParams ''1'')\<lparr>frame := ''7''\<rparr>))) =
     Stream (concat (streamChunks (toHex demoRb1) (toHex demoRb2) [0xAA, 0xBB, 0xCC, 0xDD]))"
proof -
  have z: "byteOffset (byteArray (demoDataSet demoView)) = 0"
    by (simp add: demoDataSet_def demoView_def)
  have e: "spec_elementBytes (demoDataSet demoView) \<lparr>dataOffset = 2, length_el = 4\<rparr> =
      [0xAA, 0xBB, 0xCC, 0xDD]"
    by (simp add: spec_elementBytes_def demoDataSet_def demoView_def eval_nat_numeral)
  have "frames_handler demoEnv demoRb1 demoRb2 demoStore ((demoParams ''1'')\<lparr>frame := ''1''\<rparr>) =
      frames_handler demoEnv demoRb1 demoRb2 demoStore ((demoParams ''1'')\<lparr>frame := ''7''\<rparr>)"
    using frame_parameter_no_influence [where env = demoEnv and ra = demoRb1 and rb = demoRb2
        and fs = demoStore and params = "demoParams ''1''" and f = "''1''" and f' = "''7''"]
    by (rule conjunct1)
  moreover have "body (fst (frames_handler demoEnv demoRb1 demoRb2 demoStore
        ((demoParams ''1'')\<lparr>frame := ''7''\<rparr>))) =
      Stream (concat (streamChunks (toHex demoRb1) (toHex demoRb2)
        (spec_elementBytes (demoDataSet demoView) \<lparr>dataOffset = 2, length_el = 4\<rparr>)))"
    using frame_parameter_no_influence [where env = demoEnv and ra = demoRb1 and rb = demoRb2
        and fs = demoStore and params = "demoParams ''1''" and f = "''7''" and f' = "''1''"
        and ds = "demoDataSet demoView" and el = "\<lparr>dataOffset = 2, length_el = 4\<rparr>"]
      demo_stored [of "''1''"] z
    by blast
  ultimately show ?thesis
    by (simp only: e simp_thms)
qed

end
